theory Spec2Isabelle
  imports Complex_Main "HOL-Library.Stream"
begin

section \<open>JavaScript numbers\<close>

text \<open>
  Script.js computes with JavaScript numbers. They are modelled as the reals extended with
  the three non-finite values a division can produce: finite values are exact (no rounding,
  no overflow, and the two zeros are one), and the non-finite values follow IEEE 754:
  \<^verbatim>\<open>x / 0\<close> is an infinity or \<^verbatim>\<open>NaN\<close>, \<^verbatim>\<open>Infinity - Infinity\<close> and
  \<^verbatim>\<open>Infinity * 0\<close> are \<^verbatim>\<open>NaN\<close>, and every comparison with \<^verbatim>\<open>NaN\<close> is false.
  The rounding of each operation to a double is added in the section on doubles below,
  for the one property whose truth depends on it.
\<close>

datatype jsnum = Num real | PosInf | NegInf | NaN

fun js_neg :: "jsnum \<Rightarrow> jsnum" where
  "js_neg (Num a) = Num (- a)"
| "js_neg PosInf = NegInf"
| "js_neg NegInf = PosInf"
| "js_neg NaN = NaN"

fun js_add :: "jsnum \<Rightarrow> jsnum \<Rightarrow> jsnum" where
  "js_add (Num a) (Num b) = Num (a + b)"
| "js_add NaN _ = NaN"
| "js_add _ NaN = NaN"
| "js_add PosInf NegInf = NaN"
| "js_add NegInf PosInf = NaN"
| "js_add PosInf _ = PosInf"
| "js_add _ PosInf = PosInf"
| "js_add NegInf _ = NegInf"
| "js_add _ NegInf = NegInf"

text \<open>The sign of a product or quotient with an infinite operand: \<open>p\<close> says whether the
  two operands have the same sign.\<close>

definition js_inf :: "bool \<Rightarrow> jsnum" where
  "js_inf p = (if p then PosInf else NegInf)"

fun js_mul :: "jsnum \<Rightarrow> jsnum \<Rightarrow> jsnum" where
  "js_mul (Num a) (Num b) = Num (a * b)"
| "js_mul NaN _ = NaN"
| "js_mul _ NaN = NaN"
| "js_mul PosInf (Num b) = (if b = 0 then NaN else js_inf (0 < b))"
| "js_mul NegInf (Num b) = (if b = 0 then NaN else js_inf (b < 0))"
| "js_mul (Num a) PosInf = (if a = 0 then NaN else js_inf (0 < a))"
| "js_mul (Num a) NegInf = (if a = 0 then NaN else js_inf (a < 0))"
| "js_mul PosInf PosInf = PosInf"
| "js_mul NegInf NegInf = PosInf"
| "js_mul PosInf NegInf = NegInf"
| "js_mul NegInf PosInf = NegInf"

fun js_div :: "jsnum \<Rightarrow> jsnum \<Rightarrow> jsnum" where
  "js_div (Num a) (Num b) =
     (if b \<noteq> 0 then Num (a / b) else if a = 0 then NaN else js_inf (0 < a))"
| "js_div NaN _ = NaN"
| "js_div _ NaN = NaN"
| "js_div (Num a) PosInf = Num 0"
| "js_div (Num a) NegInf = Num 0"
| "js_div PosInf (Num b) = js_inf (0 \<le> b)"
| "js_div NegInf (Num b) = js_inf (b < 0)"
| "js_div PosInf PosInf = NaN"
| "js_div PosInf NegInf = NaN"
| "js_div NegInf PosInf = NaN"
| "js_div NegInf NegInf = NaN"

fun js_abs :: "jsnum \<Rightarrow> jsnum" where
  "js_abs (Num a) = Num \<bar>a\<bar>"
| "js_abs PosInf = PosInf"
| "js_abs NegInf = PosInf"
| "js_abs NaN = NaN"

fun js_less :: "jsnum \<Rightarrow> jsnum \<Rightarrow> bool" where
  "js_less (Num a) (Num b) = (a < b)"
| "js_less NaN _ = False"
| "js_less _ NaN = False"
| "js_less _ NegInf = False"
| "js_less PosInf _ = False"
| "js_less NegInf _ = True"
| "js_less _ PosInf = True"

fun js_less_eq :: "jsnum \<Rightarrow> jsnum \<Rightarrow> bool" where
  "js_less_eq (Num a) (Num b) = (a \<le> b)"
| "js_less_eq NaN _ = False"
| "js_less_eq _ NaN = False"
| "js_less_eq NegInf _ = True"
| "js_less_eq _ PosInf = True"
| "js_less_eq _ NegInf = False"
| "js_less_eq PosInf _ = False"

text \<open>The operators of the source (\<^verbatim>\<open>+ - * /\<close>, unary minus, \<^verbatim>\<open>Math.abs\<close>,
  \<^verbatim>\<open><\<close>) are these functions, so that the model reads as the code does.\<close>

instantiation jsnum :: "{plus, minus, uminus, times, inverse, abs, ord}"
begin

definition plus_jsnum :: "jsnum \<Rightarrow> jsnum \<Rightarrow> jsnum" where
  "plus_jsnum a b = js_add a b"

definition uminus_jsnum :: "jsnum \<Rightarrow> jsnum" where
  "uminus_jsnum a = js_neg a"

definition minus_jsnum :: "jsnum \<Rightarrow> jsnum \<Rightarrow> jsnum" where
  "minus_jsnum a b = js_add a (js_neg b)"

definition times_jsnum :: "jsnum \<Rightarrow> jsnum \<Rightarrow> jsnum" where
  "times_jsnum a b = js_mul a b"

definition divide_jsnum :: "jsnum \<Rightarrow> jsnum \<Rightarrow> jsnum" where
  "divide_jsnum a b = js_div a b"

definition inverse_jsnum :: "jsnum \<Rightarrow> jsnum" where
  "inverse_jsnum a = js_div (Num 1) a"

definition abs_jsnum :: "jsnum \<Rightarrow> jsnum" where
  "abs_jsnum a = js_abs a"

definition less_jsnum :: "jsnum \<Rightarrow> jsnum \<Rightarrow> bool" where
  "less_jsnum a b = js_less a b"

definition less_eq_jsnum :: "jsnum \<Rightarrow> jsnum \<Rightarrow> bool" where
  "less_eq_jsnum a b = js_less_eq a b"

instance ..

end

fun isFinite :: "jsnum \<Rightarrow> bool" where
  "isFinite (Num a) = True"
| "isFinite _ = False"

section \<open>AnimationManager\<close>

text \<open>\<^verbatim>\<open>static lerp(start, end, factor) { return start + (end - start) * factor; }\<close>\<close>

definition lerp :: "jsnum \<Rightarrow> jsnum \<Rightarrow> jsnum \<Rightarrow> jsnum" where
  "lerp start end' factor = start + (end' - start) * factor"

text \<open>The single-field tick applied \<open>n\<close> times with a fixed end and factor.\<close>

fun lerp_iter :: "nat \<Rightarrow> jsnum \<Rightarrow> jsnum \<Rightarrow> jsnum \<Rightarrow> jsnum" where
  "lerp_iter 0 start end' factor = start"
| "lerp_iter (Suc n) start end' factor = lerp (lerp_iter n start end' factor) end' factor"

section \<open>Configuration (config.js)\<close>

text \<open>
  The handlers read their constants from \<^verbatim>\<open>CONFIG.box\<close> (in the second listing of
  Script.js from \<^verbatim>\<open>CONFIG[this.box.id]\<close>, an object of the same shape), and the bubble
  generator from \<^verbatim>\<open>CONFIG.bubbles\<close>. The objects are passed as records; \<open>CONFIG_box\<close>
  and \<open>CONFIG_bubbles\<close> are the literals of config.js. Only the fields Script.js reads
  are kept.
\<close>

record box_config =
  rotationMax :: real
  hoverHeight :: real
  motionSpeed :: real
  glowOpacity :: real
  transitionDuration :: string
  transitionTiming :: string
  snapThreshold :: real

definition CONFIG_box :: box_config where
  "CONFIG_box = \<lparr>rotationMax = 15, hoverHeight = 100, motionSpeed = 25 / 100,
     glowOpacity = 2 / 10, transitionDuration = ''0.5s'', transitionTiming = ''ease-out'',
     snapThreshold = 1 / 100\<rparr>"

record bubbles_config =
  count :: int
  size_base :: real
  size_variance :: real
  colors :: "string list"
  gradients :: "string list"
  duration_base :: real
  duration_variance :: real

definition CONFIG_bubbles :: bubbles_config where
  "CONFIG_bubbles = \<lparr>count = 50, size_base = 50, size_variance = 30,
     colors = [''rgba(255, 107, 107, 1)'', ''rgba(147, 64, 255, 1)'', ''rgba(77, 171, 247, 1)'',
       ''rgba(255, 189, 89, 1)'', ''rgba(76, 217, 105, 1)'', ''rgba(252, 83, 154, 1)'',
       ''rgba(59, 178, 208, 1)'', ''rgba(255, 145, 48, 1)'', ''rgba(180, 129, 255, 1)'',
       ''rgba(255, 223, 89, 1)''],
     gradients = [''linear-gradient(45deg, rgba(255,107,107,1), rgba(255,189,89,1))'',
       ''linear-gradient(45deg, rgba(147,64,255,1), rgba(77,171,247,1))'',
       ''linear-gradient(45deg, rgba(252,83,154,1), rgba(180,129,255,1))'',
       ''linear-gradient(45deg, rgba(76,217,105,1), rgba(59,178,208,1))''],
     duration_base = 12, duration_variance = 4\<rparr>"

section \<open>BubbleManager\<close>

text \<open>
  \<^verbatim>\<open>Math.random()\<close> returns the next element of a stream of numbers; the claims about
  the generator assume each of them in \<open>[0, 1)\<close>. The manager's state is the list of the
  bubbles appended to its container, oldest first, and the rest of the stream.
\<close>

record bubble =
  bubble_width :: real
  bubble_height :: real
  background :: "string option"
  bubble_left :: real
  drift_x :: real
  sway_amount :: real
  floatUp_duration :: real
  sway_duration :: real
  animationDelay :: real
  mixBlendMode :: string

record bubble_manager =
  container :: "bubble list"
  rng :: "real stream"

definition random :: "bubble_manager \<Rightarrow> real \<times> bubble_manager" where
  "random m = (shd (rng m), m\<lparr>rng := stl (rng m)\<rparr>)"

text \<open>\<^verbatim>\<open>xs[i]\<close>: \<^verbatim>\<open>undefined\<close> (here \<open>None\<close>) outside the list.\<close>

definition index :: "'a list \<Rightarrow> int \<Rightarrow> 'a option" where
  "index xs i = (if 0 \<le> i \<and> i < int (length xs) then Some (xs ! nat i) else None)"

definition getRandomColor :: "bubbles_config \<Rightarrow> bubble_manager \<Rightarrow> string option \<times> bubble_manager" where
  "getRandomColor cfg m =
     (let (r, m1) = random m in
      if r < 3 / 10 then
        (let (k, m2) = random m1 in
         (index (gradients cfg) \<lfloor>k * real (length (gradients cfg))\<rfloor>, m2))
      else
        (let (k, m2) = random m1 in
         (index (colors cfg) \<lfloor>k * real (length (colors cfg))\<rfloor>, m2)))"

text \<open>The style of the new bubble: \<open>animationDelay\<close> is \<^verbatim>\<open>-${startDelay}s\<close>, the two
  animations run for \<^verbatim>\<open>duration\<close> and \<^verbatim>\<open>duration * 0.5\<close> seconds. The object literal
  is evaluated in the order it is written, so the colour is drawn before \<^verbatim>\<open>left\<close>.\<close>

definition createBubble :: "bubbles_config \<Rightarrow> bubble_manager \<Rightarrow> bubble_manager" where
  "createBubble cfg m =
     (let (r1, m1) = random m;
          size' = size_base cfg + r1 * size_variance cfg;
          (r2, m2) = random m1;
          duration = duration_base cfg + r2 * duration_variance cfg;
          (r3, m3) = random m2;
          startDelay = r3 * duration;
          (r4, m4) = random m3;
          driftX = (r4 - 5 / 10) * 100;
          (r5, m5) = random m4;
          swayAmount = (r5 - 5 / 10) * 40;
          (colour, m6) = getRandomColor cfg m5;
          (r6, m7) = random m6;
          b = \<lparr>bubble_width = size', bubble_height = size', background = colour,
                bubble_left = r6 * 100, drift_x = driftX, sway_amount = swayAmount,
                floatUp_duration = duration, sway_duration = duration * (5 / 10),
                animationDelay = - startDelay, mixBlendMode = ''screen''\<rparr>
      in m7\<lparr>container := container m7 @ [b]\<rparr>)"

text \<open>\<^verbatim>\<open>for (let i = 0; i < CONFIG.bubbles.count; i++) this.createBubble();\<close>\<close>

function initialize_loop :: "int \<Rightarrow> bubbles_config \<Rightarrow> bubble_manager \<Rightarrow> bubble_manager" where
  "initialize_loop i cfg m =
     (if i < count cfg then initialize_loop (i + 1) cfg (createBubble cfg m) else m)"
  by pat_completeness auto
termination
  by (relation "measure (\<lambda>(i, cfg, m). nat (count cfg - i))") auto

definition initialize :: "bubbles_config \<Rightarrow> bubble_manager \<Rightarrow> bubble_manager" where
  "initialize cfg m = initialize_loop 0 cfg m"

text \<open>The constructor: an empty container, then \<open>initialize\<close>.\<close>

definition BubbleManager :: "bubbles_config \<Rightarrow> real stream \<Rightarrow> bubble_manager" where
  "BubbleManager cfg rs = initialize cfg \<lparr>container = [], rng = rs\<rparr>"

section \<open>FloatingBox\<close>

record orientation =
  rotateX :: jsnum
  rotateY :: jsnum
  translateZ :: jsnum

text \<open>The property names \<^verbatim>\<open>'rotateX'\<close>, \<^verbatim>\<open>'rotateY'\<close>, \<^verbatim>\<open>'translateZ'\<close> and
  the accesses \<^verbatim>\<open>o[prop]\<close> and \<^verbatim>\<open>o[prop] = v\<close>.\<close>

datatype prop_name = RotateX | RotateY | TranslateZ

fun get_prop :: "orientation \<Rightarrow> prop_name \<Rightarrow> jsnum" where
  "get_prop v RotateX = rotateX v"
| "get_prop v RotateY = rotateY v"
| "get_prop v TranslateZ = translateZ v"

fun set_prop :: "orientation \<Rightarrow> prop_name \<Rightarrow> jsnum \<Rightarrow> orientation" where
  "set_prop v RotateX a = v\<lparr>rotateX := a\<rparr>"
| "set_prop v RotateY a = v\<lparr>rotateY := a\<rparr>"
| "set_prop v TranslateZ a = v\<lparr>translateZ := a\<rparr>"

definition props :: "prop_name list" where
  "props = [RotateX, RotateY, TranslateZ]"

definition rest :: orientation where
  "rest = \<lparr>rotateX = Num 0, rotateY = Num 0, translateZ = Num 0\<rparr>"

text \<open>\<^verbatim>\<open>box.style.transition\<close>: \<^verbatim>\<open>'none'\<close> or \<^verbatim>\<open>transform <duration> <timing>\<close>.\<close>

datatype transition = TransitionNone | TransitionTransform string string

text \<open>
  The controller's state: the two orientations, the hover flag, and what the handlers
  write to the page: the box's transition and transform (the three functions in the order
  they are written), the glow's opacity and its focal point \<^verbatim>\<open>--mouse-x\<close>,
  \<^verbatim>\<open>--mouse-y\<close> in percent. A style the script has not written yet is \<open>None\<close>.
  \<open>current\<close> and \<open>target\<close> are never the same object: every assignment to
  \<^verbatim>\<open>state.target\<close> stores a new object literal.
\<close>

record floating_box =
  current :: orientation
  target :: orientation
  isHovered :: bool
  box_transition :: "transition option"
  box_transform :: "(string \<times> jsnum) list"
  glow_opacity :: "real option"
  glow_mouse_x :: "jsnum option"
  glow_mouse_y :: "jsnum option"

record mouse_event =
  clientX :: real
  clientY :: real

record dom_rect =
  rect_left :: real
  rect_top :: real
  rect_width :: real
  rect_height :: real

definition FloatingBox :: floating_box where
  "FloatingBox = \<lparr>current = rest, target = rest, isHovered = False, box_transition = None,
     box_transform = [], glow_opacity = None, glow_mouse_x = None, glow_mouse_y = None\<rparr>"

text \<open>
  \<^verbatim>\<open>x.toFixed(2)\<close>, as the number its digits denote: the multiple of 1/100 nearest to
  \<open>x\<close>, the one of larger magnitude at a tie; numbers of magnitude \<open>10^21\<close> and more and
  the non-finite values are printed as they are.
\<close>

definition toFixed2 :: "jsnum \<Rightarrow> jsnum" where
  "toFixed2 v =
     (case v of
        Num x \<Rightarrow> if 10 ^ 21 \<le> \<bar>x\<bar> then Num x
                 else Num (sgn x * real_of_int \<lfloor>\<bar>x\<bar> * 100 + 1 / 2\<rfloor> / 100)
      | _ \<Rightarrow> v)"

definition updateGlowPosition :: "mouse_event \<Rightarrow> dom_rect \<Rightarrow> floating_box \<Rightarrow> floating_box" where
  "updateGlowPosition e rect s =
     (let x = toFixed2 ((Num (clientX e) - Num (rect_left rect)) / Num (rect_width rect) * Num 100);
          y = toFixed2 ((Num (clientY e) - Num (rect_top rect)) / Num (rect_height rect) * Num 100)
      in s\<lparr>glow_mouse_x := Some x, glow_mouse_y := Some y\<rparr>)"

definition handleMouseMove :: "box_config \<Rightarrow> mouse_event \<Rightarrow> dom_rect \<Rightarrow> floating_box \<Rightarrow> floating_box" where
  "handleMouseMove cfg e rect s =
     (if \<not> isHovered s then s
      else
        let x = (Num (clientX e) - Num (rect_left rect)) / Num (rect_width rect) * Num 2 - Num 1;
            y = (Num (clientY e) - Num (rect_top rect)) / Num (rect_height rect) * Num 2 - Num 1;
            s1 = s\<lparr>target := \<lparr>rotateX = - y * Num (rotationMax cfg),
                               rotateY = x * Num (rotationMax cfg),
                               translateZ = Num (hoverHeight cfg)\<rparr>\<rparr>
        in updateGlowPosition e rect s1)"

definition handleMouseEnter :: "box_config \<Rightarrow> floating_box \<Rightarrow> floating_box" where
  "handleMouseEnter cfg s =
     s\<lparr>isHovered := True, box_transition := Some TransitionNone,
       glow_opacity := Some (glowOpacity cfg)\<rparr>"

definition handleMouseLeave :: "box_config \<Rightarrow> floating_box \<Rightarrow> floating_box" where
  "handleMouseLeave cfg s =
     s\<lparr>isHovered := False, target := rest,
       box_transition := Some (TransitionTransform (transitionDuration cfg) (transitionTiming cfg)),
       glow_opacity := Some 0\<rparr>"

definition isNearRest :: "box_config \<Rightarrow> floating_box \<Rightarrow> bool" where
  "isNearRest cfg s =
     list_all (\<lambda>p. \<bar>get_prop (current s) p\<bar> < Num (snapThreshold cfg)) props"

text \<open>The \<^verbatim>\<open>forEach\<close> of \<open>updateTransforms\<close>: the interpolation step, one property
  after the other, each written into \<open>current\<close> in place.\<close>

definition interpolate :: "box_config \<Rightarrow> floating_box \<Rightarrow> floating_box" where
  "interpolate cfg s =
     (let speed = Num (motionSpeed cfg)
      in s\<lparr>current :=
           foldl (\<lambda>c p. set_prop c p (lerp (get_prop c p) (get_prop (target s) p) speed))
             (current s) props\<rparr>)"

definition updateTransforms :: "box_config \<Rightarrow> floating_box \<Rightarrow> floating_box" where
  "updateTransforms cfg s =
     (let s1 = interpolate cfg s;
          s2 = (if \<not> isHovered s1 \<and> isNearRest cfg s1
                then s1\<lparr>current := (current s1)\<lparr>rotateX := Num 0, rotateY := Num 0,
                                                  translateZ := Num 0\<rparr>\<rparr>
                else s1)
      in s2\<lparr>box_transform := [(''translateZ'', translateZ (current s2)),
                              (''rotateX'', rotateX (current s2)),
                              (''rotateY'', rotateY (current s2))]\<rparr>)"

text \<open>One animation frame; the next one is requested by the same callback, for ever.\<close>

definition updateFrame :: "box_config \<Rightarrow> floating_box \<Rightarrow> floating_box" where
  "updateFrame cfg s = updateTransforms cfg s"

text \<open>
  The states a controller can be in: the constructed one, and the result of any handler or
  frame applied to one of them, in any order. \<open>ok\<close> restricts the pointer moves that are
  handled while hovered (a move while not hovered returns at once); \<open>any_move\<close> admits all.
\<close>

inductive reachable :: "(mouse_event \<Rightarrow> dom_rect \<Rightarrow> bool) \<Rightarrow> box_config \<Rightarrow> floating_box \<Rightarrow> bool"
  for ok :: "mouse_event \<Rightarrow> dom_rect \<Rightarrow> bool" and cfg :: box_config where
  constructed: "reachable ok cfg FloatingBox"
| enter: "reachable ok cfg s \<Longrightarrow> reachable ok cfg (handleMouseEnter cfg s)"
| move: "reachable ok cfg s \<Longrightarrow> (isHovered s \<longrightarrow> ok e rect)
         \<Longrightarrow> reachable ok cfg (handleMouseMove cfg e rect s)"
| leave: "reachable ok cfg s \<Longrightarrow> reachable ok cfg (handleMouseLeave cfg s)"
| frame: "reachable ok cfg s \<Longrightarrow> reachable ok cfg (updateFrame cfg s)"

definition any_move :: "mouse_event \<Rightarrow> dom_rect \<Rightarrow> bool" where
  "any_move e rect = True"

text \<open>The pointer is inside the bounding box: the two coordinates the handler computes are
  numbers between \<open>-1\<close> and \<open>1\<close>.\<close>

definition normalized :: "real \<Rightarrow> real \<Rightarrow> real \<Rightarrow> jsnum" where
  "normalized c origin extent = (Num c - Num origin) / Num extent * Num 2 - Num 1"



definition finite_orientation :: "orientation \<Rightarrow> bool" where
  "finite_orientation v = (isFinite (rotateX v) \<and> isFinite (rotateY v) \<and> isFinite (translateZ v))"

section \<open>Predicates of the properties\<close>


text \<open>Every number of the stream is in \<open>[0, 1)\<close>, as \<^verbatim>\<open>Math.random()\<close> promises.\<close>

definition unit_stream :: "real stream \<Rightarrow> bool" where
  "unit_stream rs = (\<forall>r \<in> sset rs. 0 \<le> r \<and> r < 1)"

text \<open>The sampled parameters of one bubble are in their ranges.\<close>

definition sampled_in_range :: "bubbles_config \<Rightarrow> bubble \<Rightarrow> bool" where
  "sampled_in_range cfg b =
     (size_base cfg \<le> bubble_width b \<and> bubble_width b \<le> size_base cfg + size_variance cfg
      \<and> bubble_height b = bubble_width b
      \<and> duration_base cfg \<le> floatUp_duration b
      \<and> floatUp_duration b \<le> duration_base cfg + duration_variance cfg
      \<and> 0 \<le> - animationDelay b \<and> - animationDelay b < floatUp_duration b)"

section \<open>The controller on doubles\<close>

text \<open>
  The definitions above compute finite numbers exactly. A JavaScript number is a binary64
  double, and every operation of the source rounds its exact result to the nearest
  double, to the one with an even significand at a tie. \<open>fl\<close> is that rounding: 53
  significant bits in the binade of the value, the subnormal spacing \<open>2^-1074\<close> below
  \<open>2^-1022\<close>, an infinity when the rounded value reaches \<open>2^1024\<close>. The two zeros are one.
  The functions with the suffix \<open>_double\<close> are the controller's functions with each
  operation rounded; the literals of the configuration and the numbers of the event and
  of the bounding box are read as the nearest doubles.
\<close>

definition round_half_even :: "real \<Rightarrow> int" where
  "round_half_even x =
     (let n = \<lfloor>x\<rfloor>; r = x - real_of_int n
      in if r < 1 / 2 then n else if 1 / 2 < r then n + 1 else if even n then n else n + 1)"

text \<open>The exponent \<open>e\<close> with \<open>2^e \<le> x < 2^(e+1)\<close>, found by halving or doubling \<open>x\<close>, at most
  as often as the first argument says.\<close>

fun binade :: "nat \<Rightarrow> real \<Rightarrow> int" where
  "binade 0 x = 0"
| "binade (Suc n) x =
     (if 2 \<le> x then binade n (x / 2) + 1 else if x < 1 then binade n (x * 2) - 1 else 0)"

definition pow2 :: "int \<Rightarrow> real" where
  "pow2 k = (if 0 \<le> k then 2 ^ nat k else 1 / 2 ^ nat (- k))"

definition fl :: "real \<Rightarrow> jsnum" where
  "fl x =
     (if x = 0 then Num 0
      else
        let e = max (binade 2100 \<bar>x\<bar>) (- 1022);
            q = pow2 (e - 52);
            r = real_of_int (round_half_even (x / q)) * q
        in if 2 ^ 1024 \<le> \<bar>r\<bar> then (if 0 < x then PosInf else NegInf) else Num r)"

text \<open>The rounding of the result of an operation; the non-finite values are kept.\<close>

definition rnd :: "jsnum \<Rightarrow> jsnum" where
  "rnd v = (case v of Num x \<Rightarrow> fl x | _ \<Rightarrow> v)"


definition updateGlowPosition_double :: "mouse_event \<Rightarrow> dom_rect \<Rightarrow> floating_box \<Rightarrow> floating_box" where
  "updateGlowPosition_double e rect s =
     (let x = toFixed2 (rnd (rnd (rnd (fl (clientX e) - fl (rect_left rect)) / fl (rect_width rect))
                * Num 100));
          y = toFixed2 (rnd (rnd (rnd (fl (clientY e) - fl (rect_top rect)) / fl (rect_height rect))
                * Num 100))
      in s\<lparr>glow_mouse_x := Some x, glow_mouse_y := Some y\<rparr>)"

definition handleMouseMove_double :: "box_config \<Rightarrow> mouse_event \<Rightarrow> dom_rect \<Rightarrow> floating_box \<Rightarrow> floating_box" where
  "handleMouseMove_double cfg e rect s =
     (if \<not> isHovered s then s
      else
        let x = rnd (rnd (rnd (rnd (fl (clientX e) - fl (rect_left rect)) / fl (rect_width rect))
                  * Num 2) - Num 1);
            y = rnd (rnd (rnd (rnd (fl (clientY e) - fl (rect_top rect)) / fl (rect_height rect))
                  * Num 2) - Num 1);
            s1 = s\<lparr>target := \<lparr>rotateX = rnd (- y * fl (rotationMax cfg)),
                               rotateY = rnd (x * fl (rotationMax cfg)),
                               translateZ = fl (hoverHeight cfg)\<rparr>\<rparr>
        in updateGlowPosition_double e rect s1)"





section \<open>Arithmetic on finite numbers\<close>

lemma Num_plus [simp]: "Num a + Num b = Num (a + b)"
  by (simp add: plus_jsnum_def)

lemma Num_minus [simp]: "Num a - Num b = Num (a - b)"
  by (simp add: minus_jsnum_def)

lemma Num_uminus [simp]: "- Num a = Num (- a)"
  by (simp add: uminus_jsnum_def)

lemma Num_times [simp]: "Num a * Num b = Num (a * b)"
  by (simp add: times_jsnum_def)

lemma Num_divide [simp]: "b \<noteq> 0 \<Longrightarrow> Num a / Num b = Num (a / b)"
  by (simp add: divide_jsnum_def)

lemma Num_abs [simp]: "\<bar>Num a\<bar> = Num \<bar>a\<bar>"
  by (simp add: abs_jsnum_def)

lemma Num_less [simp]: "(Num a < Num b) = (a < b)"
  by (simp add: less_jsnum_def)

lemma Num_less_eq [simp]: "(Num a \<le> Num b) = (a \<le> b)"
  by (simp add: less_eq_jsnum_def)

lemma lerp_Num [simp]: "lerp (Num a) (Num b) (Num f) = Num (a + (b - a) * f)"
  by (simp add: lerp_def)

lemma lerp_iter_Num:
  "lerp_iter n (Num a) (Num b) (Num f) = Num (b + (a - b) * (1 - f) ^ n)"
  by (induction n) (simp_all add: algebra_simps)

section \<open>Interpolation of one field\<close>

text \<open>
  C5. With exact arithmetic, a factor strictly between 0 and 1 and a start different from
  the end, the values produced by repeating the single-field tick are finite numbers whose
  distance to the end strictly decreases at every step, which stay strictly on the side of
  the end where the start was, and which converge to the end.
\<close>

theorem lerp_converges_monotonically:
  assumes "0 < f" and "f < 1" and "a \<noteq> b"
  shows "\<exists>x. (\<forall>n. lerp_iter n (Num a) (Num b) (Num f) = Num (x n))
           \<and> (\<forall>n. \<bar>x (Suc n) - b\<bar> < \<bar>x n - b\<bar>)
           \<and> (\<forall>n. (a < b \<longrightarrow> x n < b) \<and> (b < a \<longrightarrow> b < x n))
           \<and> x \<longlonglongrightarrow> b"
proof -
  define x where "x n = b + (a - b) * (1 - f) ^ n" for n
  have pos: "0 < (1 - f) ^ n" for n
    using assms by simp
  have iter: "\<forall>n. lerp_iter n (Num a) (Num b) (Num f) = Num (x n)"
    by (simp add: lerp_iter_Num x_def)
  have dist: "\<bar>x n - b\<bar> = \<bar>a - b\<bar> * (1 - f) ^ n" for n
    using pos [of n] by (simp add: x_def abs_mult)
  have decr: "\<bar>x (Suc n) - b\<bar> < \<bar>x n - b\<bar>" for n
  proof -
    define c where "c = \<bar>a - b\<bar> * (1 - f) ^ n"
    have "0 < c"
      using assms pos [of n] by (simp add: c_def)
    then have "0 < f * c"
      using assms by simp
    then have "(1 - f) * c < c"
      by (simp add: algebra_simps)
    moreover have "\<bar>x (Suc n) - b\<bar> = (1 - f) * c"
      by (simp add: dist c_def)
    moreover have "\<bar>x n - b\<bar> = c"
      by (simp add: dist c_def)
    ultimately show ?thesis
      by simp
  qed
  have side: "(a < b \<longrightarrow> x n < b) \<and> (b < a \<longrightarrow> b < x n)" for n
    using pos [of n] by (simp add: x_def mult_less_0_iff zero_less_mult_iff)
  have pow: "(\<lambda>n. (1 - f) ^ n) \<longlonglongrightarrow> 0"
    using assms by (intro LIMSEQ_realpow_zero) simp_all
  have "(\<lambda>n. b + (a - b) * (1 - f) ^ n) \<longlonglongrightarrow> b + (a - b) * 0"
    by (intro tendsto_add tendsto_mult tendsto_const pow)
  then have lim: "x \<longlonglongrightarrow> b"
    by (simp add: x_def [abs_def])
  from iter decr side lim show ?thesis
    by blast
qed

theorem lerp_converges_monotonically_witness:
  "(0::real) < 1 / 4 \<and> (1::real) / 4 < 1 \<and> (0::real) \<noteq> 100
   \<and> (\<exists>x. (\<forall>n. lerp_iter n (Num 0) (Num 100) (Num (1 / 4)) = Num (x n))
           \<and> (\<forall>n. \<bar>x (Suc n) - 100\<bar> < \<bar>x n - 100\<bar>)
           \<and> (\<forall>n. ((0::real) < 100 \<longrightarrow> x n < 100) \<and> ((100::real) < 0 \<longrightarrow> 100 < x n))
           \<and> x \<longlonglongrightarrow> 100)"
  using lerp_converges_monotonically [of "1 / 4" 0 100] by simp



section \<open>Lemmas about the handlers and the frame\<close>

lemma interpolate_frame [simp]:
  "target (interpolate cfg s) = target s"
  "isHovered (interpolate cfg s) = isHovered s"
  by (simp_all add: interpolate_def)

lemma current_interpolate:
  "current (interpolate cfg s) =
     \<lparr>rotateX = lerp (rotateX (current s)) (rotateX (target s)) (Num (motionSpeed cfg)),
      rotateY = lerp (rotateY (current s)) (rotateY (target s)) (Num (motionSpeed cfg)),
      translateZ = lerp (translateZ (current s)) (translateZ (target s)) (Num (motionSpeed cfg))\<rparr>"
  by (simp add: interpolate_def props_def Let_def)

lemma isNearRest_iff:
  "isNearRest cfg s =
     (\<bar>rotateX (current s)\<bar> < Num (snapThreshold cfg)
      \<and> \<bar>rotateY (current s)\<bar> < Num (snapThreshold cfg)
      \<and> \<bar>translateZ (current s)\<bar> < Num (snapThreshold cfg))"
  by (simp add: isNearRest_def props_def)

lemma current_updateTransforms:
  "current (updateTransforms cfg s) =
     (if \<not> isHovered s \<and> isNearRest cfg (interpolate cfg s) then rest
      else current (interpolate cfg s))"
  by (simp add: updateTransforms_def Let_def rest_def)

lemma updateTransforms_frame [simp]:
  "target (updateTransforms cfg s) = target s"
  "isHovered (updateTransforms cfg s) = isHovered s"
  by (simp_all add: updateTransforms_def Let_def)

lemma all_props: "(\<forall>p. P p) = (P RotateX \<and> P RotateY \<and> P TranslateZ)"
  by (metis prop_name.exhaust)

lemma move_not_hovered: "\<not> isHovered s \<Longrightarrow> handleMouseMove cfg e rect s = s"
  by (simp add: handleMouseMove_def)

lemma idle_target_rest: "reachable ok cfg s \<Longrightarrow> \<not> isHovered s \<Longrightarrow> target s = rest"
proof (induction rule: reachable.induct)
  case constructed
  show ?case by (simp add: FloatingBox_def)
next
  case (enter s)
  then show ?case by (simp add: handleMouseEnter_def)
next
  case (move s e rect)
  then show ?case by (simp add: handleMouseMove_def updateGlowPosition_def Let_def split: if_splits)
next
  case (leave s)
  show ?case by (simp add: handleMouseLeave_def)
next
  case (frame s)
  then show ?case by (simp add: updateFrame_def)
qed

lemma handleMouseMove_frame [simp]:
  "current (handleMouseMove cfg e rect s) = current s"
  "isHovered (handleMouseMove cfg e rect s) = isHovered s"
  by (simp_all add: handleMouseMove_def updateGlowPosition_def Let_def)

lemma target_handleMouseMove:
  "isHovered s \<Longrightarrow> target (handleMouseMove cfg e rect s) =
     \<lparr>rotateX = - normalized (clientY e) (rect_top rect) (rect_height rect) * Num (rotationMax cfg),
      rotateY = normalized (clientX e) (rect_left rect) (rect_width rect) * Num (rotationMax cfg),
      translateZ = Num (hoverHeight cfg)\<rparr>"
  by (simp add: handleMouseMove_def updateGlowPosition_def normalized_def Let_def)

lemma glow_handleMouseMove:
  "isHovered s \<Longrightarrow>
     glow_mouse_x (handleMouseMove cfg e rect s) =
       Some (toFixed2 ((Num (clientX e) - Num (rect_left rect)) / Num (rect_width rect) * Num 100))
   \<and> glow_mouse_y (handleMouseMove cfg e rect s) =
       Some (toFixed2 ((Num (clientY e) - Num (rect_top rect)) / Num (rect_height rect) * Num 100))"
  by (simp add: handleMouseMove_def updateGlowPosition_def Let_def)

lemma normalized_Num: "w \<noteq> 0 \<Longrightarrow> normalized c l w = Num (2 * ((c - l) / w) - 1)"
  by (simp add: normalized_def mult.commute)

lemma not_finite_plus: "\<not> isFinite a \<Longrightarrow> \<not> isFinite (a + b)"
  by (cases a; cases b) (simp_all add: plus_jsnum_def)

lemma not_finite_minus: "\<not> isFinite a \<Longrightarrow> \<not> isFinite (a - b)"
  by (cases a; cases b) (simp_all add: minus_jsnum_def)

lemma not_finite_uminus: "\<not> isFinite a \<Longrightarrow> \<not> isFinite (- a)"
  by (cases a) (simp_all add: uminus_jsnum_def)

lemma not_finite_times: "\<not> isFinite a \<Longrightarrow> \<not> isFinite (a * b)"
  by (cases a; cases b) (simp_all add: times_jsnum_def js_inf_def)

lemma not_finite_divide_zero: "\<not> isFinite (Num a / Num 0)"
  by (simp add: divide_jsnum_def js_inf_def)

lemma not_finite_toFixed2: "\<not> isFinite a \<Longrightarrow> \<not> isFinite (toFixed2 a)"
  by (cases a) (simp_all add: toFixed2_def)

lemma not_finite_normalized: "\<not> isFinite (normalized c l 0)"
  unfolding normalized_def
  by (intro not_finite_minus not_finite_times) (simp add: not_finite_divide_zero)

lemma handleMouseEnter_frame [simp]:
  "current (handleMouseEnter cfg s) = current s"
  "target (handleMouseEnter cfg s) = target s"
  "isHovered (handleMouseEnter cfg s)"
  by (simp_all add: handleMouseEnter_def)

lemma handleMouseLeave_frame [simp]:
  "current (handleMouseLeave cfg s) = current s"
  "target (handleMouseLeave cfg s) = rest"
  "\<not> isHovered (handleMouseLeave cfg s)"
  by (simp_all add: handleMouseLeave_def)

lemma FloatingBox_fields [simp]:
  "current FloatingBox = rest"
  "target FloatingBox = rest"
  "\<not> isHovered FloatingBox"
  by (simp_all add: FloatingBox_def)

lemma updateFrame_frame [simp]:
  "target (updateFrame cfg s) = target s"
  "isHovered (updateFrame cfg s) = isHovered s"
  by (simp_all add: updateFrame_def)

lemma current_updateFrame:
  "current (updateFrame cfg s) =
     (if \<not> isHovered s \<and> isNearRest cfg (interpolate cfg s) then rest
      else current (interpolate cfg s))"
  by (simp add: updateFrame_def current_updateTransforms)

lemma lerp_same: "isFinite a \<Longrightarrow> lerp a a (Num f) = a"
  by (cases a) simp_all

lemma tick_at_rest: "current s = rest \<Longrightarrow> target s = rest \<Longrightarrow> current (updateFrame cfg s) = rest"
  by (simp add: current_updateFrame current_interpolate rest_def)

lemma tick_fixpoint_finite:
  assumes "reachable ok cfg s" and "current s = target s" and "finite_orientation (current s)"
  shows "current (updateFrame cfg s) = current s"
proof (cases "isHovered s")
  case True
  then show ?thesis
    using assms by (simp add: current_updateFrame current_interpolate lerp_same finite_orientation_def)
next
  case False
  with assms have "target s = rest" by (simp add: idle_target_rest)
  with assms show ?thesis by (simp add: tick_at_rest)
qed











lemma random_unit:
  assumes "unit_stream (rng m)" and "random m = (r, m')"
  shows "0 \<le> r \<and> r < 1 \<and> unit_stream (rng m') \<and> container m' = container m"
proof -
  have "shd (rng m) \<in> sset (rng m)"
    by (rule shd_sset)
  moreover have "sset (stl (rng m)) \<subseteq> sset (rng m)"
    by (auto dest: stl_sset)
  ultimately show ?thesis
    using assms by (auto simp: random_def unit_stream_def)
qed

lemma getRandomColor_unit:
  assumes "unit_stream (rng m)" and "getRandomColor cfg m = (c, m')"
  shows "unit_stream (rng m') \<and> container m' = container m"
proof -
  obtain r m1 where r: "random m = (r, m1)" by (cases "random m")
  obtain k m2 where k: "random m1 = (k, m2)" by (cases "random m1")
  have "unit_stream (rng m1) \<and> container m1 = container m"
    using random_unit [OF assms(1) r] by simp
  then have "unit_stream (rng m2) \<and> container m2 = container m"
    using random_unit [OF _ k] by simp
  moreover have "m' = m2"
    using assms(2) by (simp add: getRandomColor_def r k split: if_splits)
  ultimately show ?thesis by simp
qed

lemma scaled_bounds:
  fixes r :: real
  assumes "0 \<le> r" "r < 1" "0 \<le> v"
  shows "b \<le> b + r * v \<and> b + r * v \<le> b + v"
proof -
  have "0 \<le> r * v" using assms by simp
  moreover have "r * v \<le> 1 * v" using assms by (intro mult_right_mono) simp_all
  ultimately show ?thesis by simp
qed

lemma createBubble_appends:
  assumes u: "unit_stream (rng m)"
    and cfg: "0 \<le> size_variance cfg" "0 \<le> duration_variance cfg" "0 < duration_base cfg"
  shows "\<exists>b. container (createBubble cfg m) = container m @ [b] \<and> sampled_in_range cfg b
           \<and> unit_stream (rng (createBubble cfg m))"
proof -
  obtain r1 m1 where r1: "random m = (r1, m1)" by (cases "random m")
  obtain r2 m2 where r2: "random m1 = (r2, m2)" by (cases "random m1")
  obtain r3 m3 where r3: "random m2 = (r3, m3)" by (cases "random m2")
  obtain r4 m4 where r4: "random m3 = (r4, m4)" by (cases "random m3")
  obtain r5 m5 where r5: "random m4 = (r5, m5)" by (cases "random m4")
  obtain c m6 where c: "getRandomColor cfg m5 = (c, m6)" by (cases "getRandomColor cfg m5")
  obtain r6 m7 where r6: "random m6 = (r6, m7)" by (cases "random m6")
  have u1: "0 \<le> r1 \<and> r1 < 1 \<and> unit_stream (rng m1) \<and> container m1 = container m"
    using random_unit [OF u r1] .
  then have u2: "0 \<le> r2 \<and> r2 < 1 \<and> unit_stream (rng m2) \<and> container m2 = container m"
    using random_unit [OF _ r2] by simp
  then have u3: "0 \<le> r3 \<and> r3 < 1 \<and> unit_stream (rng m3) \<and> container m3 = container m"
    using random_unit [OF _ r3] by simp
  then have u4: "unit_stream (rng m4) \<and> container m4 = container m"
    using random_unit [OF _ r4] by simp
  then have u5: "unit_stream (rng m5) \<and> container m5 = container m"
    using random_unit [OF _ r5] by simp
  then have u6: "unit_stream (rng m6) \<and> container m6 = container m"
    using getRandomColor_unit [OF _ c] by simp
  then have u7: "unit_stream (rng m7) \<and> container m7 = container m"
    using random_unit [OF _ r6] by simp
  define size' where "size' = size_base cfg + r1 * size_variance cfg"
  define duration where "duration = duration_base cfg + r2 * duration_variance cfg"
  have s: "size_base cfg \<le> size' \<and> size' \<le> size_base cfg + size_variance cfg"
    unfolding size'_def using u1 cfg by (intro scaled_bounds) simp_all
  have d: "duration_base cfg \<le> duration
      \<and> duration \<le> duration_base cfg + duration_variance cfg"
    unfolding duration_def using u2 cfg by (intro scaled_bounds) simp_all
  then have dpos: "0 < duration" using cfg by simp
  have "r3 * duration < 1 * duration"
    using u3 dpos by (intro mult_strict_right_mono) simp_all
  moreover have "0 \<le> r3 * duration"
    using u3 dpos by simp
  ultimately have sd: "0 \<le> r3 * duration \<and> r3 * duration < duration" by simp
  have eq: "createBubble cfg m =
      m7\<lparr>container := container m7 @
        [\<lparr>bubble_width = size', bubble_height = size', background = c,
          bubble_left = r6 * 100, drift_x = (r4 - 5 / 10) * 100,
          sway_amount = (r5 - 5 / 10) * 40, floatUp_duration = duration,
          sway_duration = duration * (5 / 10), animationDelay = - (r3 * duration),
          mixBlendMode = ''screen''\<rparr>]\<rparr>"
    by (simp add: createBubble_def r1 r2 r3 r4 r5 c r6 size'_def duration_def Let_def)
  show ?thesis
    using s d sd u7 by (simp add: eq sampled_in_range_def)
qed

lemma initialize_loop_appends:
  "0 \<le> size_variance cfg \<Longrightarrow> 0 \<le> duration_variance cfg \<Longrightarrow> 0 < duration_base cfg
   \<Longrightarrow> unit_stream (rng m) \<Longrightarrow>
    \<exists>bs. container (initialize_loop i cfg m) = container m @ bs
        \<and> length bs = nat (count cfg - i) \<and> (\<forall>b \<in> set bs. sampled_in_range cfg b)"
proof (induction i cfg m rule: initialize_loop.induct)
  case (1 i cfg m)
  show ?case
  proof (cases "i < count cfg")
    case False
    then show ?thesis by simp
  next
    case True
    obtain b where b: "container (createBubble cfg m) = container m @ [b]"
        "sampled_in_range cfg b" "unit_stream (rng (createBubble cfg m))"
      using createBubble_appends [OF "1.prems"(4) "1.prems"(1-3)] by blast
    obtain bs where bs: "container (initialize_loop (i + 1) cfg (createBubble cfg m)) =
        container (createBubble cfg m) @ bs" "length bs = nat (count cfg - (i + 1))"
        "\<forall>b \<in> set bs. sampled_in_range cfg b"
      using "1.IH" [OF True "1.prems"(1-3) b(3)] by blast
    have "container (initialize_loop i cfg m) = container m @ (b # bs)"
      using True b bs by simp
    moreover have "length (b # bs) = nat (count cfg - i)"
      using True bs by simp
    moreover have "\<forall>x \<in> set (b # bs). sampled_in_range cfg x"
      using b bs by simp
    ultimately show ?thesis by blast
  qed
qed

section \<open>Lemmas about the controller on doubles\<close>

text \<open>The search of the binade finds it for every number between \<open>2^-n\<close> and
  \<open>2^n\<close>, so its 2100 steps cover the doubles.\<close>

lemma pow2_pos: "0 < pow2 k"
  by (simp add: pow2_def)

lemma pow2_Suc: "pow2 (k + 1) = 2 * pow2 k"
proof (cases "0 \<le> k")
  case True
  then show ?thesis by (simp add: pow2_def nat_add_distrib)
next
  case False
  then have "nat (- k) = Suc (nat (- (k + 1)))" by simp
  then show ?thesis using False by (simp add: pow2_def)
qed

lemma pow2_pred: "pow2 (k - 1) = pow2 k / 2"
  using pow2_Suc [of "k - 1"] by simp

lemma pow2_neg: "pow2 (- int n) = 1 / 2 ^ n"
  unfolding pow2_def by (cases n) (simp_all del: of_nat_Suc)

lemma pow2_neg_Suc: "pow2 (- int (Suc n)) = pow2 (- int n) / 2"
  unfolding pow2_neg by simp

lemma binade_bounds:
  "0 < x \<Longrightarrow> pow2 (- int n) \<le> x \<Longrightarrow> x < pow2 (int n)
   \<Longrightarrow> pow2 (binade n x) \<le> x \<and> x < pow2 (binade n x + 1)"
proof (induction n arbitrary: x)
  case 0
  then show ?case by (simp add: pow2_def)
next
  case (Suc n)
  show ?case
  proof (cases "2 \<le> x")
    case True
    have "pow2 (- int n) \<le> 1"
      by (simp add: pow2_def)
    then have lo: "pow2 (- int n) \<le> x / 2"
      using True by simp
    have "x < 2 * pow2 (int n)"
      using Suc.prems(3) pow2_Suc [of "int n"] by (simp add: add.commute)
    then have hi: "x / 2 < pow2 (int n)"
      by simp
    have "pow2 (binade n (x / 2)) \<le> x / 2 \<and> x / 2 < pow2 (binade n (x / 2) + 1)"
      using Suc.prems(1) lo hi by (intro Suc.IH) simp_all
    then show ?thesis
      using True pow2_Suc [of "binade n (x / 2)"] pow2_Suc [of "binade n (x / 2) + 1"]
      by (simp add: add.commute)
  next
    case False
    show ?thesis
    proof (cases "x < 1")
      case True
      have "pow2 (- int (Suc n)) = pow2 (- int n) / 2"
        by (rule pow2_neg_Suc)
      then have lo: "pow2 (- int n) \<le> x * 2"
        using Suc.prems(2) by simp
      show ?thesis
      proof (cases n)
        case 0
        then show ?thesis
          using True Suc.prems by (simp add: pow2_def)
      next
        case (Suc m)
        have "1 \<le> pow2 (int m)"
          by (simp add: pow2_def)
        then have "2 \<le> pow2 (int n)"
          using Suc pow2_Suc [of "int m"] by (simp add: add.commute)
        then have hi': "x * 2 < pow2 (int n)"
          using True by simp
        have "pow2 (binade n (x * 2)) \<le> x * 2 \<and> x * 2 < pow2 (binade n (x * 2) + 1)"
          using Suc.prems(1) lo hi' by (intro Suc.IH) simp_all
        then show ?thesis
          using True False pow2_pred [of "binade n (x * 2)"] pow2_Suc [of "binade n (x * 2)"]
          by (simp add: add.commute)
      qed
    next
      case False
      with \<open>\<not> 2 \<le> x\<close> show ?thesis
        by (simp add: pow2_def)
    qed
  qed
qed



lemma rnd_Num [simp]: "rnd (Num x) = fl x"
  by (simp add: rnd_def)

lemma handleMouseMove_double_frame [simp]:
  "current (handleMouseMove_double cfg e rect s) = current s"
  "isHovered (handleMouseMove_double cfg e rect s) = isHovered s"
  by (simp_all add: handleMouseMove_double_def updateGlowPosition_double_def Let_def)




section \<open>The properties\<close>

text \<open>
  C1. The interpolation step of a frame replaces each of the three properties \<open>p\<close> of
  \<open>current\<close> by \<open>current[p] + (target[p] - current[p]) * motionSpeed\<close>, from the old
  value of the same property alone. Every frame performs it, hovered or not: the
  orientation a frame leaves is the interpolated one, or the rest orientation when the
  box is not hovered and the interpolated orientation is near rest.
\<close>

theorem tick_interpolates_each_field:
  "get_prop (current (interpolate cfg s)) p =
     get_prop (current s) p + (get_prop (target s) p - get_prop (current s) p) * Num (motionSpeed cfg)
   \<and> current (updateFrame cfg s) =
     (if \<not> isHovered s \<and> isNearRest cfg (interpolate cfg s)
      then \<lparr>rotateX = Num 0, rotateY = Num 0, translateZ = Num 0\<rparr>
      else current (interpolate cfg s))"
  by (cases p) (simp_all add: current_interpolate lerp_def updateFrame_def current_updateTransforms rest_def)

theorem tick_interpolates_each_field_witness:
  "get_prop (current (interpolate CONFIG_box
       (FloatingBox\<lparr>target := \<lparr>rotateX = Num 0, rotateY = Num 0, translateZ = Num 100\<rparr>,
          isHovered := True\<rparr>))) TranslateZ = Num 25
   \<and> current (updateFrame CONFIG_box
       (FloatingBox\<lparr>target := \<lparr>rotateX = Num 0, rotateY = Num 0, translateZ = Num 100\<rparr>,
          isHovered := True\<rparr>)) =
       \<lparr>rotateX = Num 0, rotateY = Num 0, translateZ = Num 25\<rparr>"
proof -
  define s where "s = FloatingBox\<lparr>target := \<lparr>rotateX = Num 0, rotateY = Num 0,
    translateZ = Num 100\<rparr>, isHovered := True\<rparr>"
  have c: "current s = rest" "target s = \<lparr>rotateX = Num 0, rotateY = Num 0,
      translateZ = Num 100\<rparr>" "isHovered s"
    by (simp_all add: s_def)
  have i: "current (interpolate CONFIG_box s) =
      \<lparr>rotateX = Num 0, rotateY = Num 0, translateZ = Num 25\<rparr>"
    by (simp add: current_interpolate c rest_def CONFIG_box_def)
  have "get_prop (current (interpolate CONFIG_box s)) TranslateZ = Num 25
      \<and> current (updateFrame CONFIG_box s) =
        \<lparr>rotateX = Num 0, rotateY = Num 0, translateZ = Num 25\<rparr>"
    using tick_interpolates_each_field [of CONFIG_box s TranslateZ] c i by simp
  then show ?thesis
    unfolding s_def .
qed

text \<open>
  C2. When the box is not hovered and, after the interpolation step of the frame, the
  absolute value of each of the three properties of \<open>current\<close> is below the snap
  threshold, the frame leaves \<open>current\<close> exactly at zero in all three. When the box is
  hovered the snap does not fire: the frame leaves the interpolated orientation.
\<close>

theorem rest_snap:
  "(\<not> isHovered s
     \<and> (\<forall>p. \<bar>get_prop (current (interpolate cfg s)) p\<bar> < Num (snapThreshold cfg))
     \<longrightarrow> current (updateFrame cfg s) = \<lparr>rotateX = Num 0, rotateY = Num 0, translateZ = Num 0\<rparr>)
   \<and> (isHovered s \<longrightarrow> current (updateFrame cfg s) = current (interpolate cfg s))"
  by (simp add: updateFrame_def current_updateTransforms isNearRest_iff all_props rest_def)

theorem rest_snap_witness:
  "\<not> isHovered (FloatingBox\<lparr>current := \<lparr>rotateX = Num 0, rotateY = Num 0,
       translateZ = Num (1 / 100)\<rparr>\<rparr>)
   \<and> (\<forall>p. \<bar>get_prop (current (interpolate CONFIG_box
         (FloatingBox\<lparr>current := \<lparr>rotateX = Num 0, rotateY = Num 0,
            translateZ = Num (1 / 100)\<rparr>\<rparr>))) p\<bar> < Num (snapThreshold CONFIG_box))
   \<and> current (updateFrame CONFIG_box
         (FloatingBox\<lparr>current := \<lparr>rotateX = Num 0, rotateY = Num 0,
            translateZ = Num (1 / 100)\<rparr>\<rparr>)) =
       \<lparr>rotateX = Num 0, rotateY = Num 0, translateZ = Num 0\<rparr>
   \<and> isHovered (FloatingBox\<lparr>current := \<lparr>rotateX = Num 0, rotateY = Num 0,
       translateZ = Num (1 / 100)\<rparr>, isHovered := True\<rparr>)
   \<and> current (updateFrame CONFIG_box
         (FloatingBox\<lparr>current := \<lparr>rotateX = Num 0, rotateY = Num 0,
            translateZ = Num (1 / 100)\<rparr>, isHovered := True\<rparr>)) =
       \<lparr>rotateX = Num 0, rotateY = Num 0, translateZ = Num (3 / 400)\<rparr>"
proof -
  define s where "s = FloatingBox\<lparr>current := \<lparr>rotateX = Num 0, rotateY = Num 0,
    translateZ = Num (1 / 100)\<rparr>\<rparr>"
  define t where "t = FloatingBox\<lparr>current := \<lparr>rotateX = Num 0, rotateY = Num 0,
    translateZ = Num (1 / 100)\<rparr>, isHovered := True\<rparr>"
  have i: "current (interpolate CONFIG_box s) =
      \<lparr>rotateX = Num 0, rotateY = Num 0, translateZ = Num (3 / 400)\<rparr>"
    by (simp add: current_interpolate s_def rest_def CONFIG_box_def)
  have j: "current (interpolate CONFIG_box t) =
      \<lparr>rotateX = Num 0, rotateY = Num 0, translateZ = Num (3 / 400)\<rparr>"
    by (simp add: current_interpolate t_def rest_def CONFIG_box_def)
  have h: "\<not> isHovered s" "isHovered t"
    by (simp_all add: s_def t_def)
  have thr: "snapThreshold CONFIG_box = 1 / 100"
    by (simp add: CONFIG_box_def)
  have n: "\<forall>p. \<bar>get_prop (current (interpolate CONFIG_box s)) p\<bar>
      < Num (snapThreshold CONFIG_box)"
    by (simp add: all_props i thr)
  have "current (updateFrame CONFIG_box s) =
      \<lparr>rotateX = Num 0, rotateY = Num 0, translateZ = Num 0\<rparr>"
    using rest_snap [of s CONFIG_box] h n by blast
  moreover have "current (updateFrame CONFIG_box t) =
      \<lparr>rotateX = Num 0, rotateY = Num 0, translateZ = Num (3 / 400)\<rparr>"
    using rest_snap [of t CONFIG_box] h j by simp
  ultimately show ?thesis
    using h n unfolding s_def t_def by blast
qed

text \<open>
  C9. A pointer move received while the box is not hovered changes nothing: the state it
  returns is the state it was given, so \<open>current\<close>, \<open>target\<close> and the focal point of the
  glow are what they were, for every pointer position and bounding box.
\<close>

theorem move_while_idle_is_noop:
  assumes "\<not> isHovered s"
  shows "handleMouseMove cfg e rect s = s"
  using assms by (simp add: handleMouseMove_def)

theorem move_while_idle_is_noop_witness:
  "\<not> isHovered FloatingBox
   \<and> handleMouseMove CONFIG_box \<lparr>clientX = 5, clientY = 150\<rparr>
        \<lparr>rect_left = 0, rect_top = 0, rect_width = 0, rect_height = 300\<rparr> FloatingBox = FloatingBox"
proof -
  have h: "\<not> isHovered FloatingBox"
    by simp
  show ?thesis
    using move_while_idle_is_noop [OF h] h by blast
qed

text \<open>
  C4. A pointer move handled while hovered, over a bounding box of width and height other
  than zero, with \<open>fx\<close> and \<open>fy\<close> the fractions of the box at the pointer, stores the
  target \<open>rotateX = -(2 fy - 1) * rotationMax\<close>, \<open>rotateY = (2 fx - 1) * rotationMax\<close>,
  \<open>translateZ = hoverHeight\<close>. At the centre of the box that is \<open>(0, 0, hoverHeight)\<close>, at
  its top-left corner \<open>(rotationMax, -rotationMax, hoverHeight)\<close>.
\<close>

theorem pointer_move_target:
  assumes "isHovered s" and "rect_width rect \<noteq> 0" and "rect_height rect \<noteq> 0"
    and "fx = (clientX e - rect_left rect) / rect_width rect"
    and "fy = (clientY e - rect_top rect) / rect_height rect"
  shows "target (handleMouseMove cfg e rect s) =
           \<lparr>rotateX = Num (- (2 * fy - 1) * rotationMax cfg),
            rotateY = Num ((2 * fx - 1) * rotationMax cfg),
            translateZ = Num (hoverHeight cfg)\<rparr>
       \<and> (clientX e = rect_left rect + rect_width rect / 2
            \<and> clientY e = rect_top rect + rect_height rect / 2
          \<longrightarrow> target (handleMouseMove cfg e rect s) =
                \<lparr>rotateX = Num 0, rotateY = Num 0, translateZ = Num (hoverHeight cfg)\<rparr>)
       \<and> (clientX e = rect_left rect \<and> clientY e = rect_top rect
          \<longrightarrow> target (handleMouseMove cfg e rect s) =
                \<lparr>rotateX = Num (rotationMax cfg), rotateY = Num (- rotationMax cfg),
                 translateZ = Num (hoverHeight cfg)\<rparr>)"
  using assms by (simp add: target_handleMouseMove normalized_Num)

theorem pointer_move_target_witness:
  "isHovered (handleMouseEnter CONFIG_box FloatingBox)
   \<and> rect_width \<lparr>rect_left = 0, rect_top = 0, rect_width = 300, rect_height = 300\<rparr> \<noteq> 0
   \<and> rect_height \<lparr>rect_left = 0, rect_top = 0, rect_width = 300, rect_height = 300\<rparr> \<noteq> 0
   \<and> target (handleMouseMove CONFIG_box \<lparr>clientX = 150, clientY = 150\<rparr>
        \<lparr>rect_left = 0, rect_top = 0, rect_width = 300, rect_height = 300\<rparr>
        (handleMouseEnter CONFIG_box FloatingBox)) =
       \<lparr>rotateX = Num 0, rotateY = Num 0, translateZ = Num 100\<rparr>
   \<and> target (handleMouseMove CONFIG_box \<lparr>clientX = 0, clientY = 0\<rparr>
        \<lparr>rect_left = 0, rect_top = 0, rect_width = 300, rect_height = 300\<rparr>
        (handleMouseEnter CONFIG_box FloatingBox)) =
       \<lparr>rotateX = Num 15, rotateY = Num (- 15), translateZ = Num 100\<rparr>"
proof -
  define r where "r = \<lparr>rect_left = 0, rect_top = 0, rect_width = 300, rect_height = 300\<rparr>"
  define s where "s = handleMouseEnter CONFIG_box FloatingBox"
  define centre where "centre = \<lparr>clientX = 150, clientY = 150\<rparr>"
  define corner where "corner = \<lparr>clientX = 0, clientY = 0\<rparr>"
  have h: "isHovered s"
    by (simp add: s_def)
  have w: "rect_width r \<noteq> 0" "rect_height r \<noteq> 0"
    by (simp_all add: r_def)
  have c: "1 / 2 = (clientX centre - rect_left r) / rect_width r"
      "1 / 2 = (clientY centre - rect_top r) / rect_height r"
    by (simp_all add: r_def centre_def)
  have k: "0 = (clientX corner - rect_left r) / rect_width r"
      "0 = (clientY corner - rect_top r) / rect_height r"
    by (simp_all add: r_def corner_def)
  have "target (handleMouseMove CONFIG_box centre r s) =
      \<lparr>rotateX = Num 0, rotateY = Num 0, translateZ = Num 100\<rparr>"
    using pointer_move_target [OF h w c, of CONFIG_box] by (simp add: CONFIG_box_def)
  moreover have "target (handleMouseMove CONFIG_box corner r s) =
      \<lparr>rotateX = Num 15, rotateY = Num (- 15), translateZ = Num 100\<rparr>"
    using pointer_move_target [OF h w k, of CONFIG_box] by (simp add: CONFIG_box_def)
  ultimately show ?thesis
    using h w unfolding r_def s_def centre_def corner_def by blast
qed

text \<open>
  C3, as the code has it. A pointer move whose bounding box has width or height zero is
  skipped only while the box is not hovered. While hovered the handler has no test of the
  box: it stores a new target whose \<open>translateZ\<close> is the hover height, whose \<open>rotateY\<close>
  is not finite when the width is zero and whose \<open>rotateX\<close> is not finite when the height
  is zero, and the coordinate of the glow on that axis is not finite either.
\<close>

theorem degenerate_box_not_skipped:
  assumes "rect_width rect = 0 \<or> rect_height rect = 0"
  shows "(\<not> isHovered s \<longrightarrow> handleMouseMove cfg e rect s = s)
       \<and> (isHovered s \<longrightarrow>
            translateZ (target (handleMouseMove cfg e rect s)) = Num (hoverHeight cfg)
          \<and> (rect_width rect = 0 \<longrightarrow>
               \<not> isFinite (rotateY (target (handleMouseMove cfg e rect s)))
             \<and> (\<exists>v. glow_mouse_x (handleMouseMove cfg e rect s) = Some v \<and> \<not> isFinite v))
          \<and> (rect_height rect = 0 \<longrightarrow>
               \<not> isFinite (rotateX (target (handleMouseMove cfg e rect s)))
             \<and> (\<exists>v. glow_mouse_y (handleMouseMove cfg e rect s) = Some v \<and> \<not> isFinite v)))"
proof -
  have idle: "\<not> isHovered s \<longrightarrow> handleMouseMove cfg e rect s = s"
    by (simp add: move_not_hovered)
  have tz: "isHovered s \<longrightarrow>
      translateZ (target (handleMouseMove cfg e rect s)) = Num (hoverHeight cfg)"
    by (simp add: target_handleMouseMove)
  have w: "\<not> isFinite (rotateY (target (handleMouseMove cfg e rect s)))
      \<and> (\<exists>v. glow_mouse_x (handleMouseMove cfg e rect s) = Some v \<and> \<not> isFinite v)"
    if "isHovered s" "rect_width rect = 0"
    using that
    by (simp add: target_handleMouseMove glow_handleMouseMove not_finite_times
        not_finite_normalized not_finite_toFixed2 not_finite_divide_zero)
  have h: "\<not> isFinite (rotateX (target (handleMouseMove cfg e rect s)))
      \<and> (\<exists>v. glow_mouse_y (handleMouseMove cfg e rect s) = Some v \<and> \<not> isFinite v)"
    if "isHovered s" "rect_height rect = 0"
    using that
    by (simp add: target_handleMouseMove glow_handleMouseMove not_finite_times
        not_finite_uminus not_finite_normalized not_finite_toFixed2 not_finite_divide_zero)
  from idle tz w h show ?thesis
    by blast
qed

theorem degenerate_box_not_skipped_witness:
  "(rect_width \<lparr>rect_left = 0, rect_top = 0, rect_width = 0, rect_height = 300\<rparr> = 0
      \<or> rect_height \<lparr>rect_left = 0, rect_top = 0, rect_width = 0, rect_height = 300\<rparr> = 0)
   \<and> isHovered (handleMouseEnter CONFIG_box FloatingBox)
   \<and> translateZ (target (handleMouseMove CONFIG_box \<lparr>clientX = 5, clientY = 150\<rparr>
        \<lparr>rect_left = 0, rect_top = 0, rect_width = 0, rect_height = 300\<rparr>
        (handleMouseEnter CONFIG_box FloatingBox))) = Num 100
   \<and> \<not> isFinite (rotateY (target (handleMouseMove CONFIG_box \<lparr>clientX = 5, clientY = 150\<rparr>
        \<lparr>rect_left = 0, rect_top = 0, rect_width = 0, rect_height = 300\<rparr>
        (handleMouseEnter CONFIG_box FloatingBox))))"
proof -
  define r where "r = \<lparr>rect_left = 0, rect_top = 0, rect_width = 0, rect_height = 300\<rparr>"
  define s where "s = handleMouseEnter CONFIG_box FloatingBox"
  have d: "rect_width r = 0 \<or> rect_height r = 0" and w: "rect_width r = 0"
    by (simp_all add: r_def)
  have h: "isHovered s"
    by (simp add: s_def)
  have "translateZ (target (handleMouseMove CONFIG_box \<lparr>clientX = 5, clientY = 150\<rparr> r s)) =
        Num (hoverHeight CONFIG_box)
      \<and> \<not> isFinite (rotateY (target (handleMouseMove CONFIG_box
          \<lparr>clientX = 5, clientY = 150\<rparr> r s)))"
    using degenerate_box_not_skipped [OF d, of s CONFIG_box "\<lparr>clientX = 5, clientY = 150\<rparr>"] h w
    by blast
  moreover have "hoverHeight CONFIG_box = 100"
    by (simp add: CONFIG_box_def)
  ultimately show ?thesis
    using d h unfolding r_def s_def by simp
qed

text \<open>
  C3, as stated, fails: hovered, with the constants of config.js, a move at \<open>(5, 150)\<close>
  over a box of width 0 and height 300 replaces the target \<open>(0, 0, 0)\<close> by
  \<open>(0, Infinity, 100)\<close> and sets the glow's \<open>--mouse-x\<close> to \<open>Infinity\<close>.
\<close>

theorem degenerate_box_counterexample:
  "rect_width \<lparr>rect_left = 0, rect_top = 0, rect_width = 0, rect_height = 300\<rparr> = 0
   \<and> target (handleMouseEnter CONFIG_box FloatingBox) =
       \<lparr>rotateX = Num 0, rotateY = Num 0, translateZ = Num 0\<rparr>
   \<and> target (handleMouseMove CONFIG_box \<lparr>clientX = 5, clientY = 150\<rparr>
        \<lparr>rect_left = 0, rect_top = 0, rect_width = 0, rect_height = 300\<rparr>
        (handleMouseEnter CONFIG_box FloatingBox)) =
       \<lparr>rotateX = Num 0, rotateY = PosInf, translateZ = Num 100\<rparr>
   \<and> glow_mouse_x (handleMouseEnter CONFIG_box FloatingBox) = None
   \<and> glow_mouse_x (handleMouseMove CONFIG_box \<lparr>clientX = 5, clientY = 150\<rparr>
        \<lparr>rect_left = 0, rect_top = 0, rect_width = 0, rect_height = 300\<rparr>
        (handleMouseEnter CONFIG_box FloatingBox)) = Some PosInf"
  by (simp add: handleMouseMove_def handleMouseEnter_def FloatingBox_def CONFIG_box_def
      updateGlowPosition_def toFixed2_def rest_def Let_def
      divide_jsnum_def times_jsnum_def minus_jsnum_def uminus_jsnum_def js_inf_def)

text \<open>
  C6, as the code has it. In every state the controller can reach, under any configuration
  and whatever the pointer moves and bounding boxes, if \<open>current\<close> equals \<open>target\<close> and
  its three properties are finite numbers, a further frame leaves \<open>current\<close> unchanged.
\<close>

theorem tick_idempotent_at_target:
  assumes "reachable any_move cfg s" and "current s = target s"
    and "finite_orientation (current s)"
  shows "current (updateFrame cfg s) = current s"
  using assms by (rule tick_fixpoint_finite)

theorem tick_idempotent_at_target_witness:
  "reachable any_move (CONFIG_box\<lparr>motionSpeed := 1\<rparr>)
       (updateFrame (CONFIG_box\<lparr>motionSpeed := 1\<rparr>)
         (handleMouseMove (CONFIG_box\<lparr>motionSpeed := 1\<rparr>) \<lparr>clientX = 150, clientY = 150\<rparr>
           \<lparr>rect_left = 0, rect_top = 0, rect_width = 300, rect_height = 300\<rparr>
           (handleMouseEnter (CONFIG_box\<lparr>motionSpeed := 1\<rparr>) FloatingBox)))
   \<and> current (updateFrame (CONFIG_box\<lparr>motionSpeed := 1\<rparr>)
         (handleMouseMove (CONFIG_box\<lparr>motionSpeed := 1\<rparr>) \<lparr>clientX = 150, clientY = 150\<rparr>
           \<lparr>rect_left = 0, rect_top = 0, rect_width = 300, rect_height = 300\<rparr>
           (handleMouseEnter (CONFIG_box\<lparr>motionSpeed := 1\<rparr>) FloatingBox))) =
       \<lparr>rotateX = Num 0, rotateY = Num 0, translateZ = Num 100\<rparr>
   \<and> target (updateFrame (CONFIG_box\<lparr>motionSpeed := 1\<rparr>)
         (handleMouseMove (CONFIG_box\<lparr>motionSpeed := 1\<rparr>) \<lparr>clientX = 150, clientY = 150\<rparr>
           \<lparr>rect_left = 0, rect_top = 0, rect_width = 300, rect_height = 300\<rparr>
           (handleMouseEnter (CONFIG_box\<lparr>motionSpeed := 1\<rparr>) FloatingBox))) =
       \<lparr>rotateX = Num 0, rotateY = Num 0, translateZ = Num 100\<rparr>
   \<and> current (updateFrame (CONFIG_box\<lparr>motionSpeed := 1\<rparr>)
       (updateFrame (CONFIG_box\<lparr>motionSpeed := 1\<rparr>)
         (handleMouseMove (CONFIG_box\<lparr>motionSpeed := 1\<rparr>) \<lparr>clientX = 150, clientY = 150\<rparr>
           \<lparr>rect_left = 0, rect_top = 0, rect_width = 300, rect_height = 300\<rparr>
           (handleMouseEnter (CONFIG_box\<lparr>motionSpeed := 1\<rparr>) FloatingBox)))) =
       \<lparr>rotateX = Num 0, rotateY = Num 0, translateZ = Num 100\<rparr>"
proof -
  define cfg where "cfg = CONFIG_box\<lparr>motionSpeed := 1\<rparr>"
  define m where "m = handleMouseMove cfg \<lparr>clientX = 150, clientY = 150\<rparr>
    \<lparr>rect_left = 0, rect_top = 0, rect_width = 300, rect_height = 300\<rparr> (handleMouseEnter cfg FloatingBox)"
  define t where "t = updateFrame cfg m"
  have r: "reachable any_move cfg t"
    unfolding t_def m_def
    by (intro reachable.frame reachable.move reachable.enter reachable.constructed)
      (simp add: any_move_def)
  have tm: "target m = \<lparr>rotateX = Num 0, rotateY = Num 0, translateZ = Num 100\<rparr>"
    by (simp add: m_def target_handleMouseMove normalized_Num cfg_def CONFIG_box_def)
  have cm: "current m = rest" "isHovered m"
    by (simp_all add: m_def)
  have c: "current t = \<lparr>rotateX = Num 0, rotateY = Num 0, translateZ = Num 100\<rparr>"
    by (simp add: t_def current_updateFrame current_interpolate tm cm rest_def cfg_def)
  have e: "target t = \<lparr>rotateX = Num 0, rotateY = Num 0, translateZ = Num 100\<rparr>"
    by (simp add: t_def tm)
  have f: "finite_orientation (current t)"
    by (simp add: c finite_orientation_def)
  have "current (updateFrame cfg t) = current t"
    using tick_idempotent_at_target [OF r _ f] c e by simp
  then show ?thesis
    using r c e unfolding t_def m_def cfg_def by simp
qed

text \<open>
  C6, as stated, fails. With \<open>motionSpeed = 1\<close>, hovered, a move at \<open>(5, 150)\<close> over a
  box of width 0 and height 300 stores the target \<open>(0, Infinity, 100)\<close>; one frame brings
  \<open>current\<close> to the same orientation, and the next frame turns its \<open>rotateY\<close> into
  \<open>NaN\<close>, since \<open>Infinity - Infinity\<close> is \<open>NaN\<close>.
\<close>

theorem tick_idempotent_counterexample:
  "reachable any_move (CONFIG_box\<lparr>motionSpeed := 1\<rparr>)
       (updateFrame (CONFIG_box\<lparr>motionSpeed := 1\<rparr>)
         (handleMouseMove (CONFIG_box\<lparr>motionSpeed := 1\<rparr>) \<lparr>clientX = 5, clientY = 150\<rparr>
           \<lparr>rect_left = 0, rect_top = 0, rect_width = 0, rect_height = 300\<rparr>
           (handleMouseEnter (CONFIG_box\<lparr>motionSpeed := 1\<rparr>) FloatingBox)))
   \<and> current (updateFrame (CONFIG_box\<lparr>motionSpeed := 1\<rparr>)
         (handleMouseMove (CONFIG_box\<lparr>motionSpeed := 1\<rparr>) \<lparr>clientX = 5, clientY = 150\<rparr>
           \<lparr>rect_left = 0, rect_top = 0, rect_width = 0, rect_height = 300\<rparr>
           (handleMouseEnter (CONFIG_box\<lparr>motionSpeed := 1\<rparr>) FloatingBox))) =
       \<lparr>rotateX = Num 0, rotateY = PosInf, translateZ = Num 100\<rparr>
   \<and> target (updateFrame (CONFIG_box\<lparr>motionSpeed := 1\<rparr>)
         (handleMouseMove (CONFIG_box\<lparr>motionSpeed := 1\<rparr>) \<lparr>clientX = 5, clientY = 150\<rparr>
           \<lparr>rect_left = 0, rect_top = 0, rect_width = 0, rect_height = 300\<rparr>
           (handleMouseEnter (CONFIG_box\<lparr>motionSpeed := 1\<rparr>) FloatingBox))) =
       \<lparr>rotateX = Num 0, rotateY = PosInf, translateZ = Num 100\<rparr>
   \<and> current (updateFrame (CONFIG_box\<lparr>motionSpeed := 1\<rparr>)
       (updateFrame (CONFIG_box\<lparr>motionSpeed := 1\<rparr>)
         (handleMouseMove (CONFIG_box\<lparr>motionSpeed := 1\<rparr>) \<lparr>clientX = 5, clientY = 150\<rparr>
           \<lparr>rect_left = 0, rect_top = 0, rect_width = 0, rect_height = 300\<rparr>
           (handleMouseEnter (CONFIG_box\<lparr>motionSpeed := 1\<rparr>) FloatingBox)))) =
       \<lparr>rotateX = Num 0, rotateY = NaN, translateZ = Num 100\<rparr>"
proof -
  define cfg where "cfg = CONFIG_box\<lparr>motionSpeed := 1\<rparr>"
  define m where "m = handleMouseMove cfg \<lparr>clientX = 5, clientY = 150\<rparr>
    \<lparr>rect_left = 0, rect_top = 0, rect_width = 0, rect_height = 300\<rparr> (handleMouseEnter cfg FloatingBox)"
  define t where "t = updateFrame cfg m"
  have r: "reachable any_move cfg t"
    unfolding t_def m_def
    by (intro reachable.frame reachable.move reachable.enter reachable.constructed)
      (simp add: any_move_def)
  have tm: "target m = \<lparr>rotateX = Num 0, rotateY = PosInf, translateZ = Num 100\<rparr>"
    by (simp add: m_def target_handleMouseMove normalized_def cfg_def CONFIG_box_def
        divide_jsnum_def times_jsnum_def minus_jsnum_def js_inf_def)
  have cm: "current m = rest" "isHovered m"
    by (simp_all add: m_def)
  have c: "current t = \<lparr>rotateX = Num 0, rotateY = PosInf, translateZ = Num 100\<rparr>"
    by (simp add: t_def current_updateFrame current_interpolate tm cm rest_def cfg_def
        lerp_def plus_jsnum_def times_jsnum_def minus_jsnum_def js_inf_def)
  have e: "target t = \<lparr>rotateX = Num 0, rotateY = PosInf, translateZ = Num 100\<rparr>"
    by (simp add: t_def tm)
  have h: "isHovered t"
    by (simp add: t_def cm)
  have "current (updateFrame cfg t) = \<lparr>rotateX = Num 0, rotateY = NaN, translateZ = Num 100\<rparr>"
    by (simp add: current_updateFrame current_interpolate c e h cfg_def
        lerp_def plus_jsnum_def times_jsnum_def minus_jsnum_def)
  then show ?thesis
    using r c e unfolding t_def m_def cfg_def by simp
qed

text \<open>
  C8. In every state reachable from the constructed one by pointer-enter, pointer-move,
  pointer-leave and frames, in any order and with any pointer positions and bounding
  boxes: when the box is not hovered, \<open>target\<close> is \<open>(0, 0, 0)\<close>.
\<close>

theorem idle_target_is_rest:
  assumes "reachable any_move cfg s" and "\<not> isHovered s"
  shows "target s = \<lparr>rotateX = Num 0, rotateY = Num 0, translateZ = Num 0\<rparr>"
  using assms idle_target_rest [of any_move cfg s] by (simp add: rest_def)

theorem idle_target_is_rest_witness:
  "reachable any_move CONFIG_box
     (handleMouseLeave CONFIG_box
       (handleMouseMove CONFIG_box \<lparr>clientX = 5, clientY = 150\<rparr>
         \<lparr>rect_left = 0, rect_top = 0, rect_width = 0, rect_height = 300\<rparr>
         (handleMouseEnter CONFIG_box FloatingBox)))
   \<and> \<not> isHovered
     (handleMouseLeave CONFIG_box
       (handleMouseMove CONFIG_box \<lparr>clientX = 5, clientY = 150\<rparr>
         \<lparr>rect_left = 0, rect_top = 0, rect_width = 0, rect_height = 300\<rparr>
         (handleMouseEnter CONFIG_box FloatingBox)))
   \<and> target
     (handleMouseLeave CONFIG_box
       (handleMouseMove CONFIG_box \<lparr>clientX = 5, clientY = 150\<rparr>
         \<lparr>rect_left = 0, rect_top = 0, rect_width = 0, rect_height = 300\<rparr>
         (handleMouseEnter CONFIG_box FloatingBox))) =
       \<lparr>rotateX = Num 0, rotateY = Num 0, translateZ = Num 0\<rparr>"
proof -
  define s where "s = handleMouseLeave CONFIG_box
    (handleMouseMove CONFIG_box \<lparr>clientX = 5, clientY = 150\<rparr>
      \<lparr>rect_left = 0, rect_top = 0, rect_width = 0, rect_height = 300\<rparr> (handleMouseEnter CONFIG_box FloatingBox))"
  have r: "reachable any_move CONFIG_box s"
    unfolding s_def
    by (intro reachable.leave reachable.move reachable.enter reachable.constructed)
      (simp add: any_move_def)
  have h: "\<not> isHovered s"
    by (simp add: s_def)
  show ?thesis
    using idle_target_is_rest [OF r h] r h unfolding s_def by blast
qed




text \<open>
  C7. With random numbers in \<open>[0, 1)\<close>, variances that are not negative and a positive base
  duration, the constructor leaves exactly \<open>count\<close> bubbles in the container, and each of
  them has its diameter (width and height alike) in \<open>[base, base + variance]\<close> of the
  sizes, its duration in \<open>[base, base + variance]\<close> of the durations, and its start delay
  (the negated animation delay) in \<open>[0, duration)\<close>.
\<close>

theorem populate_count_and_ranges:
  assumes "\<forall>r \<in> sset rs. 0 \<le> r \<and> r < 1"
    and "0 \<le> size_variance cfg" and "0 \<le> duration_variance cfg" and "0 < duration_base cfg"
  shows "length (container (BubbleManager cfg rs)) = nat (count cfg)
       \<and> (\<forall>b \<in> set (container (BubbleManager cfg rs)).
            size_base cfg \<le> bubble_width b \<and> bubble_width b \<le> size_base cfg + size_variance cfg
          \<and> bubble_height b = bubble_width b
          \<and> duration_base cfg \<le> floatUp_duration b
          \<and> floatUp_duration b \<le> duration_base cfg + duration_variance cfg
          \<and> 0 \<le> - animationDelay b \<and> - animationDelay b < floatUp_duration b)"
proof -
  have "unit_stream (rng \<lparr>container = [], rng = rs\<rparr>)"
    using assms(1) by (simp add: unit_stream_def)
  from initialize_loop_appends [OF assms(2-4) this, of 0]
  show ?thesis
    by (auto simp: BubbleManager_def initialize_def sampled_in_range_def)
qed

theorem populate_count_and_ranges_witness:
  "0 \<le> size_variance CONFIG_bubbles \<and> 0 \<le> duration_variance CONFIG_bubbles
   \<and> 0 < duration_base CONFIG_bubbles
   \<and> length (container (BubbleManager CONFIG_bubbles (sconst (1 / 2)))) = 50
   \<and> 50 \<le> bubble_width (container (BubbleManager CONFIG_bubbles (sconst (1 / 2))) ! 0)
   \<and> bubble_width (container (BubbleManager CONFIG_bubbles (sconst (1 / 2))) ! 0) \<le> 80
   \<and> 12 \<le> floatUp_duration (container (BubbleManager CONFIG_bubbles (sconst (1 / 2))) ! 0)
   \<and> floatUp_duration (container (BubbleManager CONFIG_bubbles (sconst (1 / 2))) ! 0) \<le> 16
   \<and> 0 \<le> - animationDelay (container (BubbleManager CONFIG_bubbles (sconst (1 / 2))) ! 0)
   \<and> - animationDelay (container (BubbleManager CONFIG_bubbles (sconst (1 / 2))) ! 0)
       < floatUp_duration (container (BubbleManager CONFIG_bubbles (sconst (1 / 2))) ! 0)"
proof -
  define bs where "bs = container (BubbleManager CONFIG_bubbles (sconst (1 / 2)))"
  have s: "\<forall>r \<in> sset (sconst (1 / 2 :: real)). 0 \<le> r \<and> r < 1"
    by simp
  have c: "0 \<le> size_variance CONFIG_bubbles" "0 \<le> duration_variance CONFIG_bubbles"
      "0 < duration_base CONFIG_bubbles"
    by (simp_all add: CONFIG_bubbles_def)
  have v: "count CONFIG_bubbles = 50" "size_base CONFIG_bubbles = 50"
      "size_variance CONFIG_bubbles = 30" "duration_base CONFIG_bubbles = 12"
      "duration_variance CONFIG_bubbles = 4"
    by (simp_all add: CONFIG_bubbles_def)
  have all: "length bs = 50
      \<and> (\<forall>b \<in> set bs. 50 \<le> bubble_width b \<and> bubble_width b \<le> 80
           \<and> 12 \<le> floatUp_duration b \<and> floatUp_duration b \<le> 16
           \<and> 0 \<le> - animationDelay b \<and> - animationDelay b < floatUp_duration b)"
    using populate_count_and_ranges [OF s c] by (simp add: v bs_def)
  then have "bs ! 0 \<in> set bs"
    by (intro nth_mem) simp
  with all have "50 \<le> bubble_width (bs ! 0) \<and> bubble_width (bs ! 0) \<le> 80
      \<and> 12 \<le> floatUp_duration (bs ! 0) \<and> floatUp_duration (bs ! 0) \<le> 16
      \<and> 0 \<le> - animationDelay (bs ! 0) \<and> - animationDelay (bs ! 0) < floatUp_duration (bs ! 0)"
    by blast
  with all c show ?thesis
    unfolding bs_def by blast
qed

end
